theory Spec2Isabelle
  imports Complex_Main "HOL-Library.Multiset" "HOL-Library.Word"
begin

section \<open>Equipment scanner: the detection and enrichment pipeline\<close>

text \<open>
  A shallow embedding of \<^verbatim>\<open>src/server/main.py\<close> (the service) and of the loop body of
  \<^verbatim>\<open>src/ml/webcam.py\<close> (the interactive script).

  Conventions of the model.
  \<^item> A Python float is represented by its exact rational value (every finite binary
    float is a rational). NaN and the infinities are not represented: the values that
    reach the pipeline are detector confidences and pixel coordinates.
  \<^item> A Python \<^verbatim>\<open>str\<close> is the \<open>string\<close> of the bytes of its UTF-8 encoding, so a
    character is ASCII exactly when it is one byte below 128.
  \<^item> Python's \<^verbatim>\<open>None\<close> as a value of a dictionary or of the \<^verbatim>\<open>details\<close> field is
    \<open>None\<close> of an option type; a JSON \<^verbatim>\<open>null\<close> in the reference file is that value.
  \<^item> A raised exception is the \<open>Inl\<close> branch of a sum; \<^verbatim>\<open>HTTPException\<close> is a
    constructor of the handler's response type.
  \<^item> The collaborators that live outside the repository are parameters:
    \<open>b64decode\<close> (\<^verbatim>\<open>base64.b64decode\<close>, \<open>None\<close> when it raises), \<open>imdecode\<close>
    (\<^verbatim>\<open>cv2.imdecode\<close>, which returns a frame, returns \<^verbatim>\<open>None\<close>, or raises), \<open>model\<close>
    (the loaded YOLO detector, called with a frame and the confidence threshold),
    \<open>unicode_lower\<close> (what \<^verbatim>\<open>str.lower\<close> returns on a string with a non-ASCII
    character) and the content of \<^verbatim>\<open>equipment.json\<close>.
\<close>

subsection \<open>Data\<close>

type_synonym bytes = "8 word list"

text \<open>The exceptions of the two scripts; \<open>CvError\<close> is \<^verbatim>\<open>cv2.error\<close>.\<close>

datatype error = ValueError string | KeyError int | CvError string

text \<open>One element of \<^verbatim>\<open>result.boxes\<close>: \<^verbatim>\<open>box.cls[0]\<close>, \<^verbatim>\<open>box.conf[0]\<close>, \<^verbatim>\<open>box.xyxy[0]\<close>.\<close>

record box =
  cls :: rat
  conf :: rat
  xyxy :: "rat \<times> rat \<times> rat \<times> rat"

text \<open>One element of the list the detector returns: \<^verbatim>\<open>result.names\<close>, \<^verbatim>\<open>result.boxes\<close>.\<close>

record result =
  names :: "int \<rightharpoonup> string"
  boxes :: "box list"

record bbox =
  x1 :: rat
  y1 :: rat
  x2 :: rat
  y2 :: rat

text \<open>The dictionary \<^verbatim>\<open>format_detections\<close> appends for one box.\<close>

record 'v detection =
  label :: string
  confidence :: rat
  bbox :: bbox
  details :: "'v option"

text \<open>The dictionary \<^verbatim>\<open>scan\<close> returns.\<close>

record 'v scan_result =
  found :: bool
  count :: int
  detections :: "'v detection list"

text \<open>
  What a call of the handler ends in: it raises \<^verbatim>\<open>HTTPException\<close>, it returns the
  dictionary, or another exception leaves it uncaught (the framework then answers with
  status 500).
\<close>

datatype 'v response = HTTPException nat string | Ok "'v scan_result" | Uncaught error

record ScanRequest =
  image :: string

subsection \<open>Python primitives used by the source\<close>

text \<open>\<^verbatim>\<open>int(x)\<close> on a float truncates towards zero.\<close>

definition py_int :: "rat \<Rightarrow> int" where
  "py_int x = (if 0 \<le> x then \<lfloor>x\<rfloor> else \<lceil>x\<rceil>)"

text \<open>Rounding to the nearest integer, ties to the even neighbour.\<close>

definition round_half_even :: "rat \<Rightarrow> int" where
  "round_half_even y =
     (let f = \<lfloor>y\<rfloor>; d = y - of_int f
      in if d < 1 / 2 then f
         else if 1 / 2 < d then f + 1
         else if even f then f else f + 1)"

text \<open>
  \<^verbatim>\<open>round(x, n)\<close> on a float: CPython rounds the exact value of \<open>x\<close> correctly to \<open>n\<close>
  decimals, ties to even. The model returns the decimal \<open>k / 10 ^ n\<close> itself (CPython
  returns the float nearest to it).
\<close>

definition py_round :: "rat \<Rightarrow> nat \<Rightarrow> rat" where
  "py_round x n = of_int (round_half_even (x * 10 ^ n)) / 10 ^ n"

definition digit_char :: "nat \<Rightarrow> char" where
  "digit_char d = ''0123456789'' ! d"

fun str_nat :: "nat \<Rightarrow> string" where
  "str_nat n = (if n < 10 then [digit_char n] else str_nat (n div 10) @ [digit_char (n mod 10)])"

text \<open>\<^verbatim>\<open>str(i)\<close>, as an f-string field \<^verbatim>\<open>{i}\<close> renders an int.\<close>

definition str_int :: "int \<Rightarrow> string" where
  "str_int i = (if i < 0 then CHR ''-'' # str_nat (nat (- i)) else str_nat (nat i))"

text \<open>The f-string field \<^verbatim>\<open>{x:.2f}\<close>: two decimals, correctly rounded, ties to even.\<close>

definition format_2f :: "rat \<Rightarrow> string" where
  "format_2f x =
     (let k = nat (round_half_even (\<bar>x\<bar> * 100))
      in (if x < 0 then ''-'' else '''') @ str_nat (k div 100) @ ''.''
           @ [digit_char (k div 10 mod 10), digit_char (k mod 10)])"

definition lower_char :: "char \<Rightarrow> char" where
  "lower_char c =
     (let n = (of_char c :: nat)
      in if of_char CHR ''A'' \<le> n \<and> n \<le> of_char CHR ''Z'' then char_of (n + 32) else c)"

text \<open>
  \<^verbatim>\<open>s.lower()\<close>. On a string of ASCII characters it maps \<open>A\<close> to \<open>Z\<close> to \<open>a\<close> to \<open>z\<close>
  and keeps the rest. On a string with a non-ASCII character the outcome follows the
  Unicode case tables of the interpreter, which are the parameter \<open>unicode_lower\<close>.
\<close>

definition lower :: "(string \<Rightarrow> string) \<Rightarrow> string \<Rightarrow> string" where
  "lower unicode_lower s =
     (if \<forall>c\<in>set s. (of_char c :: nat) < 128 then map lower_char s else unicode_lower s)"

text \<open>
  \<^verbatim>\<open>sorted(xs, key=key, reverse=True)\<close>. Python keeps the sort stable under
  \<^verbatim>\<open>reverse=True\<close>: it reverses the list, sorts it ascending with a stable sort, and
  reverses the outcome.
\<close>

definition sorted_reverse :: "('a \<Rightarrow> 'k::linorder) \<Rightarrow> 'a list \<Rightarrow> 'a list" where
  "sorted_reverse key xs = rev (sort_key key (rev xs))"

subsection \<open>The service: \<^verbatim>\<open>src/server/main.py\<close>\<close>

text \<open>
  \<^verbatim>\<open>load_equipment_data\<close>: the argument is the parsed content of \<^verbatim>\<open>equipment.json\<close>
  as its items in order, or \<open>None\<close> when the file does not exist. The dictionary
  comprehension stores the items one after the other, so a later item overwrites an
  earlier one whose key has the same lower-case form.
\<close>

definition load_equipment_data ::
  "(string \<Rightarrow> string) \<Rightarrow> (string \<times> 'v option) list option \<Rightarrow> (string \<rightharpoonup> 'v option)" where
  "load_equipment_data unicode_lower file =
     (case file of
        Some data \<Rightarrow> fold (\<lambda>(k, v) m. m(lower unicode_lower k \<mapsto> v)) data Map.empty
      | None \<Rightarrow> Map.empty)"

text \<open>The text after the first comma of \<open>data_url\<close>: \<^verbatim>\<open>data_url.split(",", 1)[1]\<close>.\<close>

definition after_first_comma :: "string \<Rightarrow> string" where
  "after_first_comma s = tl (dropWhile (\<lambda>c. c \<noteq> CHR '','') s)"

text \<open>
  \<^verbatim>\<open>decode_image\<close>. Whatever \<^verbatim>\<open>b64decode\<close> raises is caught and replaced by a
  \<^verbatim>\<open>ValueError\<close>. The call of \<^verbatim>\<open>cv2.imdecode\<close> stands outside the \<^verbatim>\<open>try\<close>: what it
  raises (\<open>Inl\<close>) leaves the function as it is, and only its returning \<^verbatim>\<open>None\<close>
  (\<open>Inr None\<close>) is turned into a \<^verbatim>\<open>ValueError\<close>.
\<close>

definition decode_image ::
  "(string \<Rightarrow> bytes option) \<Rightarrow> (bytes \<Rightarrow> error + 'f option) \<Rightarrow> string \<Rightarrow> error + 'f" where
  "decode_image b64decode imdecode data_url =
     (let data = (if CHR '','' \<in> set data_url then after_first_comma data_url else data_url)
      in case b64decode data of
           None \<Rightarrow> Inl (ValueError ''Invalid base64 string'')
         | Some raw \<Rightarrow>
             (case imdecode raw of
                Inl exc \<Rightarrow> Inl exc
              | Inr None \<Rightarrow> Inl (ValueError ''Unable to decode image'')
              | Inr (Some frame) \<Rightarrow> Inr frame))"

text \<open>
  \<^verbatim>\<open>attach_details\<close>: \<^verbatim>\<open>dict.get\<close> returns the stored value, which may be \<^verbatim>\<open>None\<close>, and
  \<^verbatim>\<open>None\<close> when the key is absent.
\<close>

definition attach_details ::
  "(string \<Rightarrow> string) \<Rightarrow> (string \<rightharpoonup> 'v option) \<Rightarrow> string \<Rightarrow> 'v option" where
  "attach_details unicode_lower equipment_db lbl =
     (let key = lower unicode_lower lbl
      in case equipment_db key of None \<Rightarrow> None | Some v \<Rightarrow> v)"

text \<open>The body of the loop of \<^verbatim>\<open>format_detections\<close>: the dictionary built for one box.\<close>

definition detection_of ::
  "(string \<Rightarrow> string) \<Rightarrow> (string \<rightharpoonup> 'v option) \<Rightarrow> (int \<rightharpoonup> string) \<Rightarrow> box
     \<Rightarrow> 'v detection" where
  "detection_of unicode_lower equipment_db nms b =
     (let cls_id = py_int (cls b);
          lbl = (case nms cls_id of Some n \<Rightarrow> n | None \<Rightarrow> ''class_'' @ str_int cls_id);
          cnf = conf b
      in case xyxy b of (a0, a1, a2, a3) \<Rightarrow>
           \<lparr>label = lbl,
            confidence = py_round cnf 3,
            bbox = \<lparr>x1 = a0, y1 = a1, x2 = a2, y2 = a3\<rparr>,
            details = attach_details unicode_lower equipment_db lbl\<rparr>)"

definition format_detections ::
  "(string \<Rightarrow> string) \<Rightarrow> (string \<rightharpoonup> 'v option) \<Rightarrow> result \<Rightarrow> 'v detection list" where
  "format_detections unicode_lower equipment_db res =
     sorted_reverse confidence
       (map (detection_of unicode_lower equipment_db (names res)) (boxes res))"

text \<open>
  The handler of \<^verbatim>\<open>POST /api/scan\<close>. It catches \<^verbatim>\<open>ValueError\<close> from \<^verbatim>\<open>decode_image\<close>
  and nothing else. The detector is called with the decoded frame and the threshold
  \<^verbatim>\<open>conf=0.3\<close> and returns a list of results.
\<close>

definition scan ::
  "(string \<Rightarrow> bytes option) \<Rightarrow> (bytes \<Rightarrow> error + 'f option) \<Rightarrow> ('f \<Rightarrow> rat \<Rightarrow> result list)
     \<Rightarrow> (string \<Rightarrow> string) \<Rightarrow> (string \<rightharpoonup> 'v option) \<Rightarrow> ScanRequest \<Rightarrow> 'v response" where
  "scan b64decode imdecode model unicode_lower equipment_db req =
     (case decode_image b64decode imdecode (image req) of
        Inl exc \<Rightarrow>
          (case exc of
             ValueError msg \<Rightarrow> HTTPException 400 msg
           | _ \<Rightarrow> Uncaught exc)
      | Inr frame \<Rightarrow>
          (case model frame (3 / 10) of
             [] \<Rightarrow> HTTPException 500 ''Model did not return results''
           | res # _ \<Rightarrow>
               (let ds = format_detections unicode_lower equipment_db res
                in Ok \<lparr>found = 0 < length ds, count = int (length ds), detections = ds\<rparr>)))"

subsection \<open>The process around the handler\<close>

text \<open>
  The module holds two globals, assigned once when it is loaded: \<^verbatim>\<open>equipment_db\<close> and
  \<^verbatim>\<open>model\<close>. The handler reads both and assigns neither. The detector is an object
  with a state of its own: a call of it (\<open>call\<close>) yields the results and the state the
  object is left in.
\<close>

record ('v, 'm) globals =
  g_equipment_db :: "string \<rightharpoonup> 'v option"
  g_model :: 'm

text \<open>One request served against the globals: the response and the globals after it.\<close>

definition serve ::
  "(string \<Rightarrow> bytes option) \<Rightarrow> (bytes \<Rightarrow> error + 'f option)
     \<Rightarrow> ('m \<Rightarrow> 'f \<Rightarrow> rat \<Rightarrow> result list \<times> 'm) \<Rightarrow> (string \<Rightarrow> string)
     \<Rightarrow> ('v, 'm) globals \<Rightarrow> ScanRequest \<Rightarrow> 'v response \<times> ('v, 'm) globals" where
  "serve b64decode imdecode call unicode_lower g req =
     (scan b64decode imdecode (\<lambda>frame thr. fst (call (g_model g) frame thr))
        unicode_lower (g_equipment_db g) req,
      case decode_image b64decode imdecode (image req) of
        Inl exc \<Rightarrow> g
      | Inr frame \<Rightarrow> g\<lparr>g_model := snd (call (g_model g) frame (3 / 10))\<rparr>)"

text \<open>The requests of a list served one after the other: their responses.\<close>

fun serve_all ::
  "(string \<Rightarrow> bytes option) \<Rightarrow> (bytes \<Rightarrow> error + 'f option)
     \<Rightarrow> ('m \<Rightarrow> 'f \<Rightarrow> rat \<Rightarrow> result list \<times> 'm) \<Rightarrow> (string \<Rightarrow> string)
     \<Rightarrow> ('v, 'm) globals \<Rightarrow> ScanRequest list \<Rightarrow> 'v response list" where
  "serve_all b64decode imdecode call unicode_lower g [] = []"
| "serve_all b64decode imdecode call unicode_lower g (req # reqs) =
     fst (serve b64decode imdecode call unicode_lower g req)
       # serve_all b64decode imdecode call unicode_lower
           (snd (serve b64decode imdecode call unicode_lower g req)) reqs"

subsection \<open>The interactive script: \<^verbatim>\<open>src/ml/webcam.py\<close>\<close>

text \<open>
  The text drawn for one box, \<^verbatim>\<open>f"{model.names[cls_id]} {conf:.2f}"\<close>. Indexing the
  name table with an absent class id raises \<^verbatim>\<open>KeyError\<close>.
\<close>

definition webcam_label :: "(int \<rightharpoonup> string) \<Rightarrow> box \<Rightarrow> error + string" where
  "webcam_label nms b =
     (let cls_id = py_int (cls b);
          cnf = conf b
      in case nms cls_id of
           None \<Rightarrow> Inl (KeyError cls_id)
         | Some n \<Rightarrow> Inr (n @ '' '' @ format_2f cnf))"

subsection \<open>Example data\<close>

text \<open>
  A name table with two classes, a reference file with three entries (one of them
  \<^verbatim>\<open>null\<close>), and a detector output of three boxes: the first and the third have the
  same raw confidence, and the class id of the third is not in the name table. All
  confidences are binary fractions.
\<close>

definition demo_names :: "int \<rightharpoonup> string" where
  "demo_names = [0 \<mapsto> ''Wrench'', 1 \<mapsto> ''hammer'']"

definition demo_file :: "(string \<times> string option) list" where
  "demo_file =
     [(''Wrench'', Some ''torque tool''), (''Drill'', Some ''cordless''), (''Saw'', None)]"

text \<open>A stand-in for the case tables: it is never asked in the examples.\<close>

definition demo_lower :: "string \<Rightarrow> string" where
  "demo_lower s = s"

definition demo_db :: "string \<rightharpoonup> string option" where
  "demo_db = load_equipment_data demo_lower (Some demo_file)"

definition box_a :: box where
  "box_a = \<lparr>cls = 0, conf = 9 / 16, xyxy = (1, 2, 3, 4)\<rparr>"

definition box_b :: box where
  "box_b = \<lparr>cls = 1, conf = 29 / 32, xyxy = (5, 6, 7, 8)\<rparr>"

definition box_c :: box where
  "box_c = \<lparr>cls = 7, conf = 9 / 16, xyxy = (9, 10, 11, 12)\<rparr>"

definition demo_result :: result where
  "demo_result = \<lparr>names = demo_names, boxes = [box_a, box_b, box_c]\<rparr>"

text \<open>Two boxes whose confidences differ and both round to \<open>0.5\<close>; the smaller comes first.\<close>

definition box_d :: box where
  "box_d = \<lparr>cls = 0, conf = 1 / 2, xyxy = (1, 2, 3, 4)\<rparr>"

definition box_e :: box where
  "box_e = \<lparr>cls = 1, conf = 2049 / 4096, xyxy = (5, 6, 7, 8)\<rparr>"

definition near_tie_result :: result where
  "near_tie_result = \<lparr>names = demo_names, boxes = [box_d, box_e]\<rparr>"

text \<open>
  Stand-ins for the collaborators, which agree with the libraries on the inputs used.
  \<open>pgm_bytes\<close> is the binary PGM image of one black pixel, \<^verbatim>\<open>P5\n1 1\n255\n\x00\<close>, and
  \<open>pgm_frame\<close> the 1 by 1 grid of its three colour samples. The decoder of base64 knows
  the encoding of that image, the encoding \<^verbatim>\<open>QQ==\<close> of the single byte \<open>A\<close>, and the
  empty string; the codec raises on the empty buffer, reads the image, and returns
  \<^verbatim>\<open>None\<close> otherwise.
\<close>

definition pgm_bytes :: bytes where
  "pgm_bytes = [80, 53, 10, 49, 32, 49, 10, 50, 53, 53, 10, 0]"

definition pgm_frame :: "nat list list list" where
  "pgm_frame = ([0, 0, 0] # []) # []"

definition demo_b64decode :: "string \<Rightarrow> bytes option" where
  "demo_b64decode s =
     (if s = ''UDUKMSAxCjI1NQoA'' then Some pgm_bytes
      else if s = ''QQ=='' then Some [65]
      else if s = [] then Some []
      else None)"

definition demo_imdecode :: "bytes \<Rightarrow> error + nat list list list option" where
  "demo_imdecode raw =
     (if raw = [] then Inl (CvError ''(-215:Assertion failed) !buf.empty()'')
      else if raw = pgm_bytes then Inr (Some pgm_frame)
      else Inr None)"

definition demo_model :: "nat list list list \<Rightarrow> rat \<Rightarrow> result list" where
  "demo_model frame thr = [demo_result]"

definition empty_model :: "nat list list list \<Rightarrow> rat \<Rightarrow> result list" where
  "empty_model frame thr = [\<lparr>names = demo_names, boxes = []\<rparr>]"


definition tiring_call :: "nat \<Rightarrow> nat list list list \<Rightarrow> rat \<Rightarrow> result list \<times> nat" where
  "tiring_call n frame thr =
     ([if n = 0 then demo_result else \<lparr>names = demo_names, boxes = []\<rparr>], Suc n)"

definition demo_globals :: "(string, nat) globals" where
  "demo_globals = \<lparr>g_equipment_db = demo_db, g_model = 0\<rparr>"

definition pgm_request :: ScanRequest where
  "pgm_request = \<lparr>image = ''data:image/x-portable-graymap;base64,UDUKMSAxCjI1NQoA''\<rparr>"

section \<open>Properties\<close>

subsection \<open>Python primitives\<close>

lemma str_int_examples:
  "str_int 7 = ''7'' \<and> str_int 120 = ''120'' \<and> str_int (- 35) = ''-35''"
  by code_simp

lemma round_half_even_near: "\<bar>y - of_int (round_half_even y)\<bar> \<le> 1 / 2"
proof -
  have "of_int \<lfloor>y\<rfloor> \<le> y" "y < of_int \<lfloor>y\<rfloor> + 1" by linarith+
  then show ?thesis
    by (auto simp: round_half_even_def Let_def)
qed

lemma round_half_even_tie:
  assumes "\<bar>y - of_int (round_half_even y)\<bar> = 1 / 2"
  shows "even (round_half_even y)"
proof -
  have fl: "of_int \<lfloor>y\<rfloor> \<le> y" "y < of_int \<lfloor>y\<rfloor> + 1" by linarith+
  show ?thesis
  proof (cases "y - of_int \<lfloor>y\<rfloor> < 1 / 2")
    case True
    with assms fl show ?thesis by (simp add: round_half_even_def Let_def)
  next
    case False
    note not_below = this
    show ?thesis
    proof (cases "1 / 2 < y - of_int \<lfloor>y\<rfloor>")
      case True
      with not_below assms fl show ?thesis by (simp add: round_half_even_def Let_def)
    next
      case False
      with not_below show ?thesis by (simp add: round_half_even_def Let_def)
    qed
  qed
qed

text \<open>
  What \<open>py_round x 3\<close> is: a multiple \<open>k / 1000\<close> nearest to \<open>x\<close>, and the one with
  even \<open>k\<close> when \<open>x\<close> lies half way between two multiples.
\<close>

lemma py_round_3_spec:
  "\<exists>k. py_round x 3 = of_int k / 1000 \<and> \<bar>x - of_int k / 1000\<bar> \<le> 1 / 2000
       \<and> (\<bar>x - of_int k / 1000\<bar> = 1 / 2000 \<longrightarrow> even k)"
proof -
  let ?k = "round_half_even (x * 1000)"
  have eq: "\<bar>x - of_int ?k / 1000\<bar> = \<bar>x * 1000 - of_int ?k\<bar> / 1000"
    by (simp add: abs_if field_simps)
  have 1: "py_round x 3 = of_int ?k / 1000" by (simp add: py_round_def)
  have 2: "\<bar>x - of_int ?k / 1000\<bar> \<le> 1 / 2000"
    using round_half_even_near [of "x * 1000"] by (simp add: eq)
  have 3: "\<bar>x - of_int ?k / 1000\<bar> = 1 / 2000 \<longrightarrow> even ?k"
    using round_half_even_tie [of "x * 1000"] by (simp add: eq)
  from 1 2 3 show ?thesis by blast
qed

lemma lower_ascii:
  "\<forall>c\<in>set s. (of_char c :: nat) < 128 \<Longrightarrow> lower unicode_lower s = map lower_char s"
  by (simp add: lower_def)

lemma lower_wrench:
  "lower unicode_lower ''Wrench'' = ''wrench''"
  "lower unicode_lower ''WRENCH'' = ''wrench''"
  "lower unicode_lower ''wrench'' = ''wrench''"
proof -
  have "map lower_char ''Wrench'' = ''wrench''" "map lower_char ''WRENCH'' = ''wrench''"
    "map lower_char ''wrench'' = ''wrench''"
    by code_simp+
  then show "lower unicode_lower ''Wrench'' = ''wrench''"
    "lower unicode_lower ''WRENCH'' = ''wrench''"
    "lower unicode_lower ''wrench'' = ''wrench''"
    by (simp_all add: lower_def)
qed

subsection \<open>The descending stable sort\<close>

lemma sorted_reverse_keys: "sorted (rev (map key (sorted_reverse key xs)))"
  by (simp add: sorted_reverse_def rev_map)

lemma length_sorted_reverse: "length (sorted_reverse key xs) = length xs"
  by (simp add: sorted_reverse_def)

lemma sorted_reverse_nth:
  assumes "Suc i < length xs"
  shows "key (sorted_reverse key xs ! Suc i) \<le> key (sorted_reverse key xs ! i)"
proof -
  from sorted_reverse_keys [of key xs] assms
  have "map key (sorted_reverse key xs) ! Suc i \<le> map key (sorted_reverse key xs) ! i"
    by (simp only: sorted_rev_iff_nth_Suc length_map length_sorted_reverse)
  with assms show ?thesis by (simp add: length_sorted_reverse)
qed

lemma sorted_reverse_stable:
  "filter (\<lambda>y. key y = k) (sorted_reverse key xs) = filter (\<lambda>y. key y = k) xs"
  by (simp add: sorted_reverse_def sort_key_stable flip: rev_filter)

lemma mset_sorted_reverse: "mset (sorted_reverse key xs) = mset xs"
  by (simp add: sorted_reverse_def)

text \<open>An element of a filtered list splits the list it was filtered from.\<close>

lemma filter_eq_append_ConsD:
  "filter P zs = us @ x # vs \<Longrightarrow>
     \<exists>zs1 zs2. zs = zs1 @ x # zs2 \<and> filter P zs1 = us \<and> filter P zs2 = vs"
proof (induction us arbitrary: zs)
  case Nil
  then obtain a b where "zs = a @ x # b" "\<forall>u\<in>set a. \<not> P u" "vs = filter P b"
    by (auto simp: filter_eq_Cons_iff)
  then show ?case by (intro exI [of _ a] exI [of _ b]) simp
next
  case (Cons u us)
  then obtain a b where
    ab: "zs = a @ u # b" "\<forall>w\<in>set a. \<not> P w" "P u" "us @ x # vs = filter P b"
    by (auto simp: filter_eq_Cons_iff)
  from Cons.IH [of b] ab(4) obtain b1 b2 where
    b: "b = b1 @ x # b2" "filter P b1 = us" "filter P b2 = vs"
    by metis
  show ?case
    using ab b by (intro exI [of _ "a @ u # b1"] exI [of _ b2]) simp
qed

text \<open>Two elements with the same key leave the sort in the order they entered it.\<close>

lemma sorted_reverse_keeps_order:
  assumes "xs = as @ x # bs @ y # cs" and "key x = key y"
  shows "\<exists>as' bs' cs'. sorted_reverse key xs = as' @ x # bs' @ y # cs'"
proof -
  let ?P = "\<lambda>z. key z = key x"
  have "filter ?P (sorted_reverse key xs) = filter ?P as @ x # (filter ?P bs @ y # filter ?P cs)"
    using assms by (simp add: sorted_reverse_stable)
  then obtain z1 z2 where z: "sorted_reverse key xs = z1 @ x # z2"
      "filter ?P z2 = filter ?P bs @ y # filter ?P cs"
    using filter_eq_append_ConsD by metis
  from z(2) obtain b' c' where "z2 = b' @ y # c'"
    using filter_eq_append_ConsD by metis
  with z(1) show ?thesis by blast
qed

subsection \<open>The record built for one box\<close>

lemma confidence_detection_of:
  "confidence (detection_of unicode_lower db nms b) = py_round (conf b) 3"
  by (simp add: detection_of_def Let_def split: prod.splits)

lemma label_detection_of:
  "label (detection_of unicode_lower db nms b) =
     (case nms (py_int (cls b)) of Some n \<Rightarrow> n | None \<Rightarrow> ''class_'' @ str_int (py_int (cls b)))"
  by (simp add: detection_of_def Let_def split: prod.splits)

lemma bbox_detection_of:
  "bbox (detection_of unicode_lower db nms b) =
     \<lparr>x1 = fst (xyxy b), y1 = fst (snd (xyxy b)),
      x2 = fst (snd (snd (xyxy b))), y2 = snd (snd (snd (xyxy b)))\<rparr>"
  by (simp add: detection_of_def Let_def split: prod.splits)

lemma details_detection_of:
  "details (detection_of unicode_lower db nms b)
     = attach_details unicode_lower db (label (detection_of unicode_lower db nms b))"
  by (simp add: detection_of_def Let_def split: prod.splits)

lemma length_format_detections:
  "length (format_detections unicode_lower db res) = length (boxes res)"
  by (simp add: format_detections_def length_sorted_reverse)

lemma mset_format_detections:
  "mset (format_detections unicode_lower db res)
     = mset (map (detection_of unicode_lower db (names res)) (boxes res))"
  by (simp add: format_detections_def mset_sorted_reverse)

lemma format_detections_demo:
  "format_detections demo_lower demo_db demo_result =
     [\<lparr>label = ''hammer'', confidence = 453 / 500,
        bbox = \<lparr>x1 = 5, y1 = 6, x2 = 7, y2 = 8\<rparr>, details = None\<rparr>,
      \<lparr>label = ''Wrench'', confidence = 281 / 500,
        bbox = \<lparr>x1 = 1, y1 = 2, x2 = 3, y2 = 4\<rparr>, details = Some ''torque tool''\<rparr>,
      \<lparr>label = ''class_7'', confidence = 281 / 500,
        bbox = \<lparr>x1 = 9, y1 = 10, x2 = 11, y2 = 12\<rparr>, details = None\<rparr>]"
  by code_simp

subsection \<open>Decoding\<close>

lemma after_first_comma_append:
  "CHR '','' \<notin> set pre \<Longrightarrow> after_first_comma (pre @ CHR '','' # post) = post"
  by (induction pre) (auto simp: after_first_comma_def)

text \<open>Every request string is of one of the two shapes the decoder distinguishes.\<close>

lemma payload_cases:
  "(\<exists>pre data. data_url = pre @ CHR '','' # data \<and> CHR '','' \<notin> set pre)
     \<or> CHR '','' \<notin> set data_url"
  by (meson split_list_first)

lemma decode_image_payload:
  assumes "data_url = pre @ CHR '','' # data \<and> CHR '','' \<notin> set pre
           \<or> CHR '','' \<notin> set data_url \<and> data = data_url"
  shows "decode_image b64decode imdecode data_url =
           (case b64decode data of
              None \<Rightarrow> Inl (ValueError ''Invalid base64 string'')
            | Some raw \<Rightarrow>
                (case imdecode raw of
                   Inl exc \<Rightarrow> Inl exc
                 | Inr None \<Rightarrow> Inl (ValueError ''Unable to decode image'')
                 | Inr (Some frame) \<Rightarrow> Inr frame))"
  using assms by (auto simp: decode_image_def after_first_comma_append)

text \<open>
  What the handler makes of the outcome of decoding: a \<^verbatim>\<open>ValueError\<close> becomes status
  400 with its message, any other exception stays uncaught.
\<close>

lemma scan_decode_ValueError:
  "decode_image b64decode imdecode (image req) = Inl (ValueError msg) \<Longrightarrow>
     scan b64decode imdecode model unicode_lower equipment_db req = HTTPException 400 msg"
  by (simp add: scan_def)

lemma scan_decode_CvError:
  "decode_image b64decode imdecode (image req) = Inl (CvError msg) \<Longrightarrow>
     scan b64decode imdecode model unicode_lower equipment_db req = Uncaught (CvError msg)"
  by (simp add: scan_def)

lemma decode_image_pgm:
  "decode_image demo_b64decode demo_imdecode (image pgm_request) = Inr pgm_frame"
  by code_simp

subsection \<open>The reference table\<close>

lemma fold_lower_map_of:
  "fold (\<lambda>(k, v) m. m(lower unicode_lower k \<mapsto> v)) data m0
     = m0 ++ map_of (rev (map (\<lambda>(k, v). (lower unicode_lower k, v)) data))"
proof (induction data arbitrary: m0)
  case Nil
  show ?case by simp
next
  case (Cons kv data)
  obtain k v where kv: "kv = (k, v)" by (cases kv)
  let ?f = "\<lambda>(k, v) m. m(lower unicode_lower k \<mapsto> v)"
  let ?g = "\<lambda>(k, v). (lower unicode_lower k, v)"
  have "fold ?f (kv # data) m0 = fold ?f data (m0(lower unicode_lower k \<mapsto> v))"
    by (simp add: kv)
  also have "\<dots> = m0(lower unicode_lower k \<mapsto> v) ++ map_of (rev (map ?g data))"
    by (rule Cons.IH)
  also have "\<dots> = m0 ++ ([lower unicode_lower k \<mapsto> v] ++ map_of (rev (map ?g data)))"
    by (rule ext) (auto simp: map_add_def split: option.splits)
  also have "\<dots> = m0 ++ map_of (rev (map ?g (kv # data)))"
    by (simp add: kv)
  finally show ?case .
qed

lemma keys_lowered:
  "fst ` (\<lambda>(k, v). (lower unicode_lower k, v)) ` set data
     = lower unicode_lower ` fst ` set data"
  by (induction data) auto

lemma dom_load_equipment_data:
  "dom (load_equipment_data unicode_lower file)
     = (case file of None \<Rightarrow> {} | Some data \<Rightarrow> lower unicode_lower ` fst ` set data)"
proof (cases "file")
  case None
  then show ?thesis by (simp add: load_equipment_data_def)
next
  case (Some data)
  then show ?thesis
    by (simp add: load_equipment_data_def fold_lower_map_of dom_map_of_conv_image_fst
        keys_lowered)
qed

subsection \<open>The process\<close>



lemma length_serve_all:
  "length (serve_all b64decode imdecode call unicode_lower g reqs) = length reqs"
  by (induction reqs arbitrary: g) simp_all


text \<open>
  The hypothesis on the detector is needed: with a detector whose output changes from
  one call to the next, the same request gets two different responses.
\<close>

lemma serve_all_tiring_detector:
  "serve_all demo_b64decode demo_imdecode tiring_call demo_lower demo_globals
     [pgm_request, pgm_request]
   = [Ok \<lparr>found = True, count = 3, detections = format_detections demo_lower demo_db demo_result\<rparr>,
      Ok \<lparr>found = False, count = 0, detections = []\<rparr>]"
  by code_simp


section \<open>The claims\<close>

subsection \<open>Decoding and its errors\<close>

text \<open>
  C1. The claim has every payload that is not a readable image, the empty buffer
  included, raise the decode error that \<^verbatim>\<open>scan\<close> answers with status 400. The code
  misses the empty buffer. For a request whose payload is empty (the empty string, or
  a data URL that ends with its first comma), \<^verbatim>\<open>b64decode\<close> returns no bytes and
  \<^verbatim>\<open>cv2.imdecode\<close> raises \<^verbatim>\<open>cv2.error\<close> on them; \<^verbatim>\<open>decode_image\<close> lets it pass, the
  handler catches \<^verbatim>\<open>ValueError\<close> only, and the request ends in an uncaught exception
  and not in status 400.
\<close>

theorem scan_empty_payload_uncaught:
  assumes "b64decode [] = Some []"
    and "imdecode [] = Inl (CvError msg)"
    and "data_url = pre @ [CHR '',''] \<and> CHR '','' \<notin> set pre \<or> data_url = []"
  shows "decode_image b64decode imdecode data_url = Inl (CvError msg)
         \<and> scan b64decode imdecode model unicode_lower equipment_db \<lparr>image = data_url\<rparr>
             = Uncaught (CvError msg)
         \<and> (\<forall>m. scan b64decode imdecode model unicode_lower equipment_db \<lparr>image = data_url\<rparr>
                \<noteq> HTTPException 400 m)"
proof -
  from assms(3) have "data_url = pre @ CHR '','' # [] \<and> CHR '','' \<notin> set pre
      \<or> CHR '','' \<notin> set data_url \<and> [] = data_url"
    by auto
  from decode_image_payload [OF this, of b64decode imdecode] assms(1,2)
  have d: "decode_image b64decode imdecode data_url = Inl (CvError msg)"
    by simp
  then have "scan b64decode imdecode model unicode_lower equipment_db \<lparr>image = data_url\<rparr>
               = Uncaught (CvError msg)"
    by (simp add: scan_decode_CvError)
  with d show ?thesis by simp
qed

theorem scan_empty_payload_uncaught_witness:
  "scan demo_b64decode demo_imdecode demo_model demo_lower demo_db \<lparr>image = ''data:,''\<rparr>
     = Uncaught (CvError ''(-215:Assertion failed) !buf.empty()'')
   \<and> scan demo_b64decode demo_imdecode demo_model demo_lower demo_db \<lparr>image = []\<rparr>
     = Uncaught (CvError ''(-215:Assertion failed) !buf.empty()'')"
proof -
  have 1: "demo_b64decode [] = Some []"
    by (simp add: demo_b64decode_def)
  have 2: "demo_imdecode [] = Inl (CvError ''(-215:Assertion failed) !buf.empty()'')"
    by (simp add: demo_imdecode_def)
  have 3: "''data:,'' = ''data:'' @ [CHR '',''] \<and> CHR '','' \<notin> set ''data:'' \<or> ''data:,'' = []"
    by simp
  have 4: "[] = [] @ [CHR '',''] \<and> CHR '','' \<notin> set [] \<or> ([] :: string) = []"
    by simp
  note a = scan_empty_payload_uncaught [where b64decode = demo_b64decode
      and imdecode = demo_imdecode and msg = "''(-215:Assertion failed) !buf.empty()''"
      and data_url = "''data:,''" and pre = "''data:''" and model = demo_model
      and unicode_lower = demo_lower and equipment_db = demo_db, OF 1 2 3]
  note b = scan_empty_payload_uncaught [where b64decode = demo_b64decode
      and imdecode = demo_imdecode and msg = "''(-215:Assertion failed) !buf.empty()''"
      and data_url = "[]" and pre = "[]" and model = demo_model
      and unicode_lower = demo_lower and equipment_db = demo_db, OF 1 2 4]
  from a b show ?thesis by simp
qed

subsection \<open>Ranking\<close>

text \<open>
  C2. The list \<^verbatim>\<open>format_detections\<close> returns is sorted by confidence, descending: the
  confidence at every index is at least the confidence at the next index.
\<close>

theorem format_detections_sorted:
  "\<forall>i. Suc i < length (format_detections unicode_lower equipment_db res) \<longrightarrow>
       confidence (format_detections unicode_lower equipment_db res ! Suc i)
         \<le> confidence (format_detections unicode_lower equipment_db res ! i)"
  by (simp add: format_detections_def length_sorted_reverse sorted_reverse_nth)

theorem format_detections_sorted_witness:
  "Suc 1 < length (format_detections demo_lower demo_db demo_result)
   \<and> confidence (format_detections demo_lower demo_db demo_result ! Suc 1)
       \<le> confidence (format_detections demo_lower demo_db demo_result ! 1)
   \<and> confidence (format_detections demo_lower demo_db demo_result ! Suc 0)
       \<le> confidence (format_detections demo_lower demo_db demo_result ! 0)"
proof -
  have 1: "Suc 1 < length (format_detections demo_lower demo_db demo_result)"
    by (simp add: length_format_detections demo_result_def)
  have 0: "Suc 0 < length (format_detections demo_lower demo_db demo_result)"
    by (simp add: length_format_detections demo_result_def)
  from format_detections_sorted [rule_format, OF 1] format_detections_sorted [rule_format, OF 0] 1
  show ?thesis by simp
qed

text \<open>
  C3. Two boxes of the detector's output with the same raw confidence keep their order:
  when \<open>b1\<close> is emitted before \<open>b2\<close>, the record of \<open>b1\<close> stands before the record of
  \<open>b2\<close> in the ranked list.
\<close>

theorem format_detections_stable:
  assumes "boxes res = as @ b1 # bs @ b2 # cs" and "conf b1 = conf b2"
  shows "\<exists>ds1 ds2 ds3. format_detections unicode_lower equipment_db res
           = ds1 @ detection_of unicode_lower equipment_db (names res) b1
               # ds2 @ detection_of unicode_lower equipment_db (names res) b2 # ds3"
  unfolding format_detections_def
  by (rule sorted_reverse_keeps_order) (simp_all add: assms confidence_detection_of)

theorem format_detections_stable_witness:
  "\<exists>ds1 ds2 ds3. format_detections demo_lower demo_db demo_result
     = ds1 @ detection_of demo_lower demo_db (names demo_result) box_a
         # ds2 @ detection_of demo_lower demo_db (names demo_result) box_c # ds3"
proof (rule format_detections_stable)
  show "boxes demo_result = [] @ box_a # [box_b] @ box_c # []"
    by (simp add: demo_result_def)
  show "conf box_a = conf box_c"
    by (simp add: box_a_def box_c_def)
qed

text \<open>
  C10. The sort compares the rounded confidences. Two boxes whose raw confidences differ
  and round to the same value keep their emission order, and so do all the boxes that
  round to that value: the ranked records with that confidence are the records of those
  boxes in the order the detector emitted them.
\<close>

theorem format_detections_rounded_ties:
  assumes "boxes res = as @ b1 # bs @ b2 # cs"
    and "conf b1 \<noteq> conf b2"
    and "py_round (conf b1) 3 = py_round (conf b2) 3"
  shows "(\<exists>ds1 ds2 ds3. format_detections unicode_lower equipment_db res
            = ds1 @ detection_of unicode_lower equipment_db (names res) b1
                # ds2 @ detection_of unicode_lower equipment_db (names res) b2 # ds3)
         \<and> filter (\<lambda>d. confidence d = py_round (conf b1) 3)
               (format_detections unicode_lower equipment_db res)
             = map (detection_of unicode_lower equipment_db (names res))
                 (filter (\<lambda>b. py_round (conf b) 3 = py_round (conf b1) 3) (boxes res))"
proof
  show "\<exists>ds1 ds2 ds3. format_detections unicode_lower equipment_db res
            = ds1 @ detection_of unicode_lower equipment_db (names res) b1
                # ds2 @ detection_of unicode_lower equipment_db (names res) b2 # ds3"
    unfolding format_detections_def
    by (rule sorted_reverse_keeps_order) (simp_all add: assms confidence_detection_of)
  show "filter (\<lambda>d. confidence d = py_round (conf b1) 3)
               (format_detections unicode_lower equipment_db res)
             = map (detection_of unicode_lower equipment_db (names res))
                 (filter (\<lambda>b. py_round (conf b) 3 = py_round (conf b1) 3) (boxes res))"
    by (simp add: format_detections_def sorted_reverse_stable filter_map o_def
        confidence_detection_of)
qed

text \<open>
  In the example the box emitted first has the smaller raw confidence, and its record is
  still the first of the ranked list.
\<close>

theorem format_detections_rounded_ties_witness:
  "conf box_d < conf box_e
   \<and> format_detections demo_lower demo_db near_tie_result
       = [detection_of demo_lower demo_db demo_names box_d,
          detection_of demo_lower demo_db demo_names box_e]"
proof -
  have 1: "boxes near_tie_result = [] @ box_d # [] @ box_e # []"
    by (simp add: near_tie_result_def)
  have 2: "conf box_d \<noteq> conf box_e" "conf box_d < conf box_e"
    by (simp_all add: box_d_def box_e_def)
  have 3: "py_round (conf box_d) 3 = py_round (conf box_e) 3"
    by code_simp
  have all: "filter (\<lambda>b. py_round (conf b) 3 = py_round (conf box_d) 3) (boxes near_tie_result)
               = [box_d, box_e]"
    using 3 by (simp add: near_tie_result_def)
  have "filter (\<lambda>d. confidence d = py_round (conf box_d) 3)
          (format_detections demo_lower demo_db near_tie_result)
        = [detection_of demo_lower demo_db demo_names box_d,
           detection_of demo_lower demo_db demo_names box_e]"
    using format_detections_rounded_ties [OF 1 2(1) 3, of demo_lower demo_db]
    by (simp only: all) (simp add: near_tie_result_def)
  moreover have "length (format_detections demo_lower demo_db near_tie_result) = 2"
    by (simp add: length_format_detections near_tie_result_def)
  ultimately have "format_detections demo_lower demo_db near_tie_result
        = [detection_of demo_lower demo_db demo_names box_d,
           detection_of demo_lower demo_db demo_names box_e]"
    by (metis (no_types, lifting) filter_True filter_id_conv
        length_Cons list.size(3) One_nat_def Suc_1 length_filter_less not_less_iff_gr_or_eq)
  with 2(2) show ?thesis by simp
qed


subsection \<open>Normalisation\<close>

text \<open>
  C4, as amended. In the service the ranked list holds exactly the records of the boxes,
  one for each box, and the record of a box \<open>b\<close> carries the coordinates of \<open>b\<close> and the
  confidence of \<open>b\<close> rounded to three decimals. The rounding is to the nearest multiple of
  \<open>1/1000\<close>, ties going to the even multiple. (The interactive script builds no record;
  it prints the confidence with two decimals.)
\<close>

theorem format_detections_confidence_rounded:
  "mset (format_detections unicode_lower equipment_db res)
     = mset (map (detection_of unicode_lower equipment_db (names res)) (boxes res))
   \<and> confidence (detection_of unicode_lower equipment_db (names res) b) = py_round (conf b) 3
   \<and> bbox (detection_of unicode_lower equipment_db (names res) b)
       = \<lparr>x1 = fst (xyxy b), y1 = fst (snd (xyxy b)),
          x2 = fst (snd (snd (xyxy b))), y2 = snd (snd (snd (xyxy b)))\<rparr>
   \<and> (\<exists>k. py_round (conf b) 3 = of_int k / 1000
          \<and> \<bar>conf b - of_int k / 1000\<bar> \<le> 1 / 2000
          \<and> (\<bar>conf b - of_int k / 1000\<bar> = 1 / 2000 \<longrightarrow> even k))"
  using py_round_3_spec [of "conf b"]
  by (simp only: mset_format_detections confidence_detection_of bbox_detection_of)

theorem format_detections_confidence_rounded_witness:
  "mset (format_detections demo_lower demo_db demo_result)
     = mset (map (detection_of demo_lower demo_db demo_names) [box_a, box_b, box_c])
   \<and> confidence (detection_of demo_lower demo_db demo_names box_a) = 562 / 1000
   \<and> (\<exists>k. py_round (conf box_a) 3 = of_int k / 1000
          \<and> \<bar>conf box_a - of_int k / 1000\<bar> = 1 / 2000 \<and> even k)"
proof -
  note inst = format_detections_confidence_rounded [of demo_lower demo_db demo_result box_a]
  have r: "py_round (conf box_a) 3 = 562 / 1000"
    by code_simp
  from inst have a: "mset (format_detections demo_lower demo_db demo_result)
     = mset (map (detection_of demo_lower demo_db demo_names) [box_a, box_b, box_c])"
    by (simp add: demo_result_def)
  from inst r have b: "confidence (detection_of demo_lower demo_db demo_names box_a) = 562 / 1000"
    by (simp add: demo_result_def)
  from inst obtain k where
    k: "py_round (conf box_a) 3 = of_int k / 1000"
       "\<bar>conf box_a - of_int k / 1000\<bar> = 1 / 2000 \<longrightarrow> even k"
    by blast
  from k(1) r have "k = 562" by simp
  then have tie: "\<bar>conf box_a - of_int k / 1000\<bar> = 1 / 2000"
    by (simp add: box_a_def)
  with k have "py_round (conf box_a) 3 = of_int k / 1000
      \<and> \<bar>conf box_a - of_int k / 1000\<bar> = 1 / 2000 \<and> even k"
    by blast
  with a b show ?thesis by blast
qed

text \<open>
  C4 as stated also covers the interactive script. There a box of confidence
  \<open>253/256 = 0.98828125\<close> is shown as \<open>0.99\<close>, while its confidence rounded to three
  decimals is \<open>0.988\<close>.
\<close>

theorem webcam_confidence_counterexample:
  "webcam_label demo_names \<lparr>cls = 0, conf = 253 / 256, xyxy = (1, 2, 3, 4)\<rparr>
     = Inr ''Wrench 0.99''
   \<and> py_round (conf \<lparr>cls = 0, conf = 253 / 256, xyxy = (1, 2, 3, 4)\<rparr>) 3 = 988 / 1000"
  by code_simp

text \<open>
  C5, as amended. In the service the ranked list holds exactly the records of the boxes,
  one for each box, and the record of a box \<open>b\<close> carries the coordinates of \<open>b\<close> and as
  its label the entry of the name table for the class id of \<open>b\<close>, or \<open>class_<id>\<close> when
  the table has no such entry: \<^verbatim>\<open>format_detections\<close> has no failing branch.
\<close>

theorem format_detections_labels:
  "length (format_detections unicode_lower equipment_db res) = length (boxes res)
   \<and> mset (format_detections unicode_lower equipment_db res)
       = mset (map (detection_of unicode_lower equipment_db (names res)) (boxes res))
   \<and> label (detection_of unicode_lower equipment_db (names res) b)
       = (case names res (py_int (cls b)) of
            Some n \<Rightarrow> n
          | None \<Rightarrow> ''class_'' @ str_int (py_int (cls b)))
   \<and> bbox (detection_of unicode_lower equipment_db (names res) b)
       = \<lparr>x1 = fst (xyxy b), y1 = fst (snd (xyxy b)),
          x2 = fst (snd (snd (xyxy b))), y2 = snd (snd (snd (xyxy b)))\<rparr>"
  by (simp only: length_format_detections mset_format_detections label_detection_of
      bbox_detection_of)

text \<open>
  C5 as stated also covers the interactive script. There a class id that the name table
  lacks raises \<^verbatim>\<open>KeyError\<close>, where the service labels the same box \<open>class_7\<close>.
\<close>

theorem webcam_label_counterexample:
  "webcam_label demo_names box_c = Inl (KeyError 7)
   \<and> label (detection_of demo_lower demo_db demo_names box_c) = ''class_7''"
  by code_simp

subsection \<open>Enrichment\<close>

text \<open>
  C6. \<^verbatim>\<open>attach_details\<close> returns what the table holds under the lower-cased label and
  nothing else. The keys of the loaded table are the lower-cased keys of the file, so an
  entry under \<open>wrench\<close> is returned for the labels \<open>Wrench\<close>, \<open>WRENCH\<close> and \<open>wrench\<close>;
  every entry of the file is found by each label whose lower-case form is that of its
  key, and its own value is returned when no other key of the file has that lower-case
  form; a label whose lower-case form is no key yields \<open>None\<close>. The function has no
  failing branch. (The value returned for an entry that is \<^verbatim>\<open>null\<close> in the file is
  \<open>None\<close> as well.)
\<close>

theorem attach_details_case_insensitive:
  "attach_details unicode_lower (load_equipment_data unicode_lower file) lbl
     = (case load_equipment_data unicode_lower file (lower unicode_lower lbl) of
          None \<Rightarrow> None
        | Some x \<Rightarrow> x)
   \<and> (load_equipment_data unicode_lower file ''wrench'' = Some v \<longrightarrow>
        attach_details unicode_lower (load_equipment_data unicode_lower file) ''Wrench'' = v
        \<and> attach_details unicode_lower (load_equipment_data unicode_lower file) ''WRENCH'' = v
        \<and> attach_details unicode_lower (load_equipment_data unicode_lower file) ''wrench'' = v)
   \<and> (lower unicode_lower lbl \<notin> dom (load_equipment_data unicode_lower file) \<longrightarrow>
        attach_details unicode_lower (load_equipment_data unicode_lower file) lbl = None)
   \<and> dom (load_equipment_data unicode_lower file)
       = (case file of None \<Rightarrow> {} | Some items \<Rightarrow> lower unicode_lower ` fst ` set items)
   \<and> (file = Some data \<and> (k, w) \<in> set data \<and> lower unicode_lower l = lower unicode_lower k \<longrightarrow>
        (\<exists>w'. load_equipment_data unicode_lower file (lower unicode_lower l) = Some w'
           \<and> attach_details unicode_lower (load_equipment_data unicode_lower file) l = w'))
   \<and> (file = Some data \<and> distinct (map (\<lambda>(k, v). lower unicode_lower k) data)
        \<and> (k, w) \<in> set data \<and> lower unicode_lower l = lower unicode_lower k \<longrightarrow>
        attach_details unicode_lower (load_equipment_data unicode_lower file) l = w)"
proof (intro conjI)
  let ?T = "load_equipment_data unicode_lower file"
  show 1: "attach_details unicode_lower ?T lbl
     = (case ?T (lower unicode_lower lbl) of None \<Rightarrow> None | Some x \<Rightarrow> x)"
    by (simp add: attach_details_def)
  show "?T ''wrench'' = Some v \<longrightarrow>
        attach_details unicode_lower ?T ''Wrench'' = v
        \<and> attach_details unicode_lower ?T ''WRENCH'' = v
        \<and> attach_details unicode_lower ?T ''wrench'' = v"
    by (simp add: attach_details_def lower_wrench)
  show "lower unicode_lower lbl \<notin> dom ?T \<longrightarrow> attach_details unicode_lower ?T lbl = None"
    by (simp add: attach_details_def domIff)
  show "dom ?T = (case file of None \<Rightarrow> {} | Some items \<Rightarrow> lower unicode_lower ` fst ` set items)"
    by (rule dom_load_equipment_data)
  show "file = Some data \<and> (k, w) \<in> set data \<and> lower unicode_lower l = lower unicode_lower k \<longrightarrow>
        (\<exists>w'. ?T (lower unicode_lower l) = Some w' \<and> attach_details unicode_lower ?T l = w')"
  proof (intro impI, elim conjE)
    assume f: "file = Some data" and m: "(k, w) \<in> set data"
      and l: "lower unicode_lower l = lower unicode_lower k"
    from m have "lower unicode_lower k \<in> lower unicode_lower ` fst ` set data"
      by force
    with f l have "lower unicode_lower l \<in> dom ?T"
      by (simp add: dom_load_equipment_data)
    then obtain w' where "?T (lower unicode_lower l) = Some w'"
      by blast
    then show "\<exists>w'. ?T (lower unicode_lower l) = Some w' \<and> attach_details unicode_lower ?T l = w'"
      by (simp add: attach_details_def)
  qed
  show "file = Some data \<and> distinct (map (\<lambda>(k, v). lower unicode_lower k) data)
        \<and> (k, w) \<in> set data \<and> lower unicode_lower l = lower unicode_lower k \<longrightarrow>
        attach_details unicode_lower ?T l = w"
  proof (intro impI, elim conjE)
    let ?g = "\<lambda>(k, v). (lower unicode_lower k, v)"
    assume f: "file = Some data"
      and d: "distinct (map (\<lambda>(k, v). lower unicode_lower k) data)"
      and m: "(k, w) \<in> set data"
      and l: "lower unicode_lower l = lower unicode_lower k"
    have "map fst (rev (map ?g data)) = rev (map (\<lambda>(k, v). lower unicode_lower k) data)"
      by (induction data) auto
    with d have "distinct (map fst (rev (map ?g data)))"
      by (simp only: distinct_rev)
    moreover from m have "(lower unicode_lower k, w) \<in> set (rev (map ?g data))"
      by force
    ultimately have "map_of (rev (map ?g data)) (lower unicode_lower k) = Some w"
      by (rule map_of_is_SomeI)
    with f l have "?T (lower unicode_lower l) = Some w"
      by (simp add: load_equipment_data_def fold_lower_map_of)
    then show "attach_details unicode_lower ?T l = w"
      by (simp add: attach_details_def)
  qed
qed

theorem attach_details_case_insensitive_witness:
  "attach_details demo_lower demo_db ''WRENCH'' = Some ''torque tool''
   \<and> attach_details demo_lower demo_db ''axe'' = None
   \<and> attach_details demo_lower demo_db ''DRILL'' = Some ''cordless''
   \<and> (\<exists>w'. demo_db (lower demo_lower ''saw'') = Some w'
         \<and> attach_details demo_lower demo_db ''saw'' = w')"
proof -
  note drill = attach_details_case_insensitive [of demo_lower "Some demo_file" "''axe''"
      "Some ''torque tool''" demo_file "''Drill''" "Some ''cordless''" "''DRILL''",
      folded demo_db_def]
  note saw = attach_details_case_insensitive [of demo_lower "Some demo_file" "''axe''"
      "Some ''torque tool''" demo_file "''Saw''" "None" "''saw''", folded demo_db_def]
  have wrench: "demo_db ''wrench'' = Some (Some ''torque tool'')"
    by code_simp
  have "demo_db (lower demo_lower ''axe'') = None"
    by code_simp
  then have axe: "lower demo_lower ''axe'' \<notin> dom demo_db"
    by (simp add: domIff)
  have dist: "distinct (map (\<lambda>(k, v). lower demo_lower k) demo_file)"
    by code_simp
  have "lower demo_lower ''DRILL'' = lower demo_lower ''Drill''"
    by code_simp
  with dist have entry: "Some demo_file = Some demo_file
      \<and> distinct (map (\<lambda>(k, v). lower demo_lower k) demo_file)
      \<and> (''Drill'', Some ''cordless'') \<in> set demo_file
      \<and> lower demo_lower ''DRILL'' = lower demo_lower ''Drill''"
    by (simp add: demo_file_def)
  have "lower demo_lower ''saw'' = lower demo_lower ''Saw''"
    by code_simp
  then have null_entry: "Some demo_file = Some demo_file
      \<and> (''Saw'', None) \<in> set demo_file
      \<and> lower demo_lower ''saw'' = lower demo_lower ''Saw''"
    by (simp add: demo_file_def)
  from drill wrench have 1: "attach_details demo_lower demo_db ''WRENCH'' = Some ''torque tool''"
    by blast
  from drill axe have 2: "attach_details demo_lower demo_db ''axe'' = None"
    by blast
  from drill entry have 3: "attach_details demo_lower demo_db ''DRILL'' = Some ''cordless''"
    by blast
  from saw null_entry have 4: "\<exists>w'. demo_db (lower demo_lower ''saw'') = Some w'
         \<and> attach_details demo_lower demo_db ''saw'' = w'"
    by blast
  from 1 2 3 4 show ?thesis by blast
qed


subsection \<open>The response of the handler\<close>

text \<open>
  C7. In every successful response of \<^verbatim>\<open>scan\<close>, \<open>count\<close> is the length of
  \<open>detections\<close>, and \<open>found\<close> holds exactly when \<open>count\<close> is positive.
\<close>

theorem scan_count_found:
  assumes "scan b64decode imdecode model unicode_lower equipment_db req = Ok r"
  shows "count r = int (length (detections r)) \<and> (found r \<longleftrightarrow> 0 < count r)"
  using assms
  by (auto simp: scan_def Let_def split: sum.splits error.splits list.splits)

theorem scan_count_found_witness:
  "count \<lparr>found = True, count = 3,
          detections = format_detections demo_lower demo_db demo_result\<rparr>
     = int (length (detections
         \<lparr>found = True, count = 3,
          detections = format_detections demo_lower demo_db demo_result\<rparr>))
   \<and> found \<lparr>found = True, count = 3,
            detections = format_detections demo_lower demo_db demo_result\<rparr>
     = (0 < count
         \<lparr>found = True, count = 3,
          detections = format_detections demo_lower demo_db demo_result\<rparr>)"
proof -
  have "scan demo_b64decode demo_imdecode demo_model demo_lower demo_db pgm_request
        = Ok \<lparr>found = True, count = 3,
               detections = format_detections demo_lower demo_db demo_result\<rparr>"
    by (simp add: scan_def decode_image_pgm demo_model_def Let_def length_format_detections
        demo_result_def flip: length_greater_0_conv)
  from scan_count_found [OF this] show ?thesis .
qed

text \<open>
  C8. When the image decodes and the first result of the detector has no boxes, \<^verbatim>\<open>scan\<close>
  succeeds with \<open>found = False\<close>, \<open>count = 0\<close> and no detections.
\<close>

theorem scan_zero_candidates:
  assumes "decode_image b64decode imdecode (image req) = Inr frame"
    and "model frame (3 / 10) = res # rest"
    and "boxes res = []"
  shows "scan b64decode imdecode model unicode_lower equipment_db req
           = Ok \<lparr>found = False, count = 0, detections = []\<rparr>"
  using assms by (simp add: scan_def format_detections_def sorted_reverse_def)

theorem scan_zero_candidates_witness:
  "scan demo_b64decode demo_imdecode empty_model demo_lower demo_db pgm_request
     = Ok \<lparr>found = False, count = 0, detections = []\<rparr>"
proof (rule scan_zero_candidates)
  show "decode_image demo_b64decode demo_imdecode (image pgm_request) = Inr pgm_frame"
    by (rule decode_image_pgm)
  show "empty_model pgm_frame (3 / 10) = \<lparr>names = demo_names, boxes = []\<rparr> # []"
    by (simp add: empty_model_def)
  show "boxes \<lparr>names = demo_names, boxes = []\<rparr> = []"
    by simp
qed

subsection \<open>Determinism\<close>



end
